theory Spec2Isabelle
  imports Complex_Main "HOL-Library.Sublist" "HOL-Library.Char_ord" "HOL-Library.List_Lexorder"
begin

section \<open>Go library functions used by the services\<close>

text \<open>
  Go strings are byte sequences; they are modelled as \<open>string\<close> (lists of 8-bit
  characters).  The functions of this section belong to the Go standard library
  (\<^verbatim>\<open>strings\<close>, \<^verbatim>\<open>strconv\<close>, \<^verbatim>\<open>fmt\<close>, \<^verbatim>\<open>net/url\<close>,
  \<^verbatim>\<open>encoding/json\<close>); each is written after its documented behaviour.
\<close>

subsection \<open>\<^verbatim>\<open>strings.Join\<close>\<close>

fun Join :: "string list \<Rightarrow> string \<Rightarrow> string" where
  "Join [] sep = []"
| "Join [x] sep = x"
| "Join (x # y # ys) sep = x @ sep @ Join (y # ys) sep"

subsection \<open>\<^verbatim>\<open>strconv.Itoa\<close> and the verb \<^verbatim>\<open>%v\<close> on an \<^verbatim>\<open>int\<close>\<close>

text \<open>
  Decimal rendering, with a leading minus sign for negative values.  Go's \<^verbatim>\<open>int\<close>
  is a 64-bit signed integer; no arithmetic is performed on identifiers or offsets, so
  they are modelled as \<open>int\<close>, of which the machine values are a subset.
\<close>

definition digit_char :: "nat \<Rightarrow> char" where
  "digit_char d = ''0123456789'' ! d"

fun digits :: "nat \<Rightarrow> string" where
  "digits n = (if n < 10 then [digit_char n] else digits (n div 10) @ [digit_char (n mod 10)])"

declare digits.simps [simp del]

definition Itoa :: "int \<Rightarrow> string" where
  "Itoa i = (if i < 0 then CHR ''-'' # digits (nat (- i)) else digits (nat i))"

subsection \<open>\<^verbatim>\<open>url.QueryEscape\<close>\<close>

text \<open>
  In query-component mode only the unreserved characters (letters, digits,
  \<^verbatim>\<open>-\<close>, \<^verbatim>\<open>_\<close>, \<^verbatim>\<open>.\<close>, \<^verbatim>\<open>~\<close>) are left alone; a space becomes \<^verbatim>\<open>+\<close>; every
  other byte becomes \<^verbatim>\<open>%XX\<close> with upper-case hexadecimal digits.
\<close>

definition shouldEscape :: "char \<Rightarrow> bool" where
  "shouldEscape c \<longleftrightarrow>
     c \<notin> set ''abcdefghijklmnopqrstuvwxyzABCDEFGHIJKLMNOPQRSTUVWXYZ0123456789-_.~''"

definition upperhex :: "nat \<Rightarrow> char" where
  "upperhex d = ''0123456789ABCDEF'' ! d"

definition escape_char :: "char \<Rightarrow> string" where
  "escape_char c =
     (if \<not> shouldEscape c then [c]
      else if c = CHR '' '' then ''+''
      else [CHR ''%'', upperhex (of_char c div 16), upperhex (of_char c mod 16)])"

definition QueryEscape :: "string \<Rightarrow> string" where
  "QueryEscape s = concat (map escape_char s)"

subsection \<open>\<^verbatim>\<open>url.Values\<close>\<close>

text \<open>
  \<^verbatim>\<open>url.Values\<close> is a \<^verbatim>\<open>map[string][]string\<close>.  It is kept as an association list
  with one entry per key.  \<^verbatim>\<open>Add\<close> appends the value to the key's list.
  \<^verbatim>\<open>Encode\<close> emits \<^verbatim>\<open>key=value\<close> pairs, both sides escaped, joined by \<^verbatim>\<open>&\<close>,
  \<^emph>\<open>sorted by key\<close> (byte-wise order of the keys), the values of one key in the order
  they were added.
\<close>

type_synonym Values = "(string \<times> string list) list"

definition Values_Add :: "Values \<Rightarrow> string \<Rightarrow> string \<Rightarrow> Values" where
  "Values_Add vs key val =
     (case map_of vs key of
        None \<Rightarrow> vs @ [(key, [val])]
      | Some old \<Rightarrow> map (\<lambda>(k, xs). if k = key then (k, xs @ [val]) else (k, xs)) vs)"

definition Encode_pairs :: "Values \<Rightarrow> (string \<times> string) list" where
  "Encode_pairs vs =
     concat (map (\<lambda>k. map (\<lambda>v. (k, v)) (case map_of vs k of None \<Rightarrow> [] | Some xs \<Rightarrow> xs))
                 (sort (map fst vs)))"

definition Encode :: "Values \<Rightarrow> string" where
  "Encode vs = Join (map (\<lambda>(k, v). QueryEscape k @ ''='' @ QueryEscape v) (Encode_pairs vs)) ''&''"

subsection \<open>\<^verbatim>\<open>encoding/json\<close>: documents and struct tags\<close>

text \<open>
  A request body is kept as the JSON document that \<^verbatim>\<open>json.Marshal\<close> encodes, not as
  its bytes: an object is the list of its members in the order of the struct's fields.
  A string field tagged \<^verbatim>\<open>omitempty\<close> is left out when it is empty.
\<close>

datatype json =
    JNull
  | JBool bool
  | JNumber int
  | JString string
  | JArray "json list"
  | JObject "(string \<times> json) list"

definition string_field :: "string \<Rightarrow> bool \<Rightarrow> string \<Rightarrow> (string \<times> json) list" where
  "string_field name omitempty v = (if omitempty \<and> v = [] then [] else [(name, JString v)])"

section \<open>Data model\<close>

datatype error =
    ErrNoIssueKeyOrIDError
  | ErrNoProjectIDError
  | ErrNoVersionIDError
  | Errorf string
  | StructureNotParsedError
  | TransportError string
  | DecodeError string

datatype http_method = MethodGet | MethodPost | MethodPut | MethodDelete

text \<open>\<^verbatim>\<open>http.Request\<close>, as far as the services touch it.\<close>

record Request =
  Method :: http_method
  URL :: string
  Body :: "json option"
  Header :: "(string \<times> string list) list"

text \<open>
  \<^verbatim>\<open>request.Header.Set(key, value)\<close> replaces the values of a key.  The two keys the
  services set (\<^verbatim>\<open>Accept\<close>, \<^verbatim>\<open>Content-Type\<close>) are already in canonical form.
\<close>

definition Header_Set :: "Request \<Rightarrow> string \<Rightarrow> string \<Rightarrow> Request" where
  "Header_Set request key val =
     request\<lparr>Header := (case map_of (Header request) key of
                           None \<Rightarrow> Header request @ [(key, [val])]
                         | Some old \<Rightarrow> map (\<lambda>(k, xs). if k = key then (k, [val]) else (k, xs))
                                         (Header request))\<rparr>"

text \<open>
  The response envelope of package \<^verbatim>\<open>v2\<close> (status code, endpoint used, raw body);
  the source reads its field \<^verbatim>\<open>Bytes\<close>.
\<close>

record ResponseScheme =
  Code :: int
  EndpointV2 :: string
  Bytes :: string

text \<open>The response envelope of package \<^verbatim>\<open>jira\<close>.\<close>

record Response =
  StatusCode :: int
  Endpoint :: string
  BodyAsBytes :: string

text \<open>The decode target handed to \<^verbatim>\<open>client.call\<close>: \<^verbatim>\<open>nil\<close>, \<^verbatim>\<open>&result\<close> or \<^verbatim>\<open>&response\<close>.\<close>

datatype target = NoTarget | ResultTarget | ResponseTarget

text \<open>
  What a service method does to its client is recorded, in order: a request built by
  \<^verbatim>\<open>newRequest\<close> (method, endpoint, body), a request sent by \<^verbatim>\<open>call\<close> (package
  \<^verbatim>\<open>v2\<close>) or by \<^verbatim>\<open>Do\<close> (package \<^verbatim>\<open>jira\<close>).
\<close>

datatype event =
    NewRequest http_method string "json option"
  | Call Request target
  | Do Request

text \<open>
  The client of package \<^verbatim>\<open>v2\<close> is a parameter of every service method: its two
  operations may answer anything.  \<^verbatim>\<open>call\<close> returns what it stored in the decode
  target (nothing when it left the target alone), the envelope and the error.
\<close>

record 'v Client =
  newRequest :: "http_method \<Rightarrow> string \<Rightarrow> json option \<Rightarrow> error + Request"
  call :: "Request \<Rightarrow> target \<Rightarrow> 'v option \<times> ResponseScheme option \<times> error option"

text \<open>The client of package \<^verbatim>\<open>jira\<close>, used by the watcher service.\<close>

record jira_Client =
  jira_newRequest :: "http_method \<Rightarrow> string \<Rightarrow> json option \<Rightarrow> error + Request"
  jira_Do :: "Request \<Rightarrow> Response option \<times> error option"

text \<open>
  A nil-pointer dereference aborts the method: no values are returned.  The model keeps
  the record of what the method had done to the client by then.
\<close>

datatype panic = NilPointerDereference

subsection \<open>Payloads and results\<close>

record ShareFilterScopeScheme =
  Scope :: string

definition Marshal_ShareFilterScopeScheme :: "ShareFilterScopeScheme \<Rightarrow> json" where
  "Marshal_ShareFilterScopeScheme p = JObject (string_field ''scope'' False (Scope p))"

record PermissionFilterPayloadScheme =
  Type :: string
  ProjectID :: string
  GroupName :: string
  ProjectRoleID :: string

definition Marshal_PermissionFilterPayloadScheme :: "PermissionFilterPayloadScheme \<Rightarrow> json" where
  "Marshal_PermissionFilterPayloadScheme p =
     JObject (string_field ''type'' True (Type p)
            @ string_field ''projectId'' True (ProjectID p)
            @ string_field ''groupname'' True (GroupName p)
            @ string_field ''projectRoleId'' True (ProjectRoleID p))"

text \<open>
  \<^verbatim>\<open>models.VersionGetsOptions\<close>: the declaration is outside the files at hand; these
  are the four fields \<^verbatim>\<open>Search\<close> reads.
\<close>

record VersionGetsOptions =
  Expand :: "string list"
  Query :: string
  Status :: string
  OrderBy :: string

record Watcher =
  watcher_Self :: string
  AccountID :: string
  DisplayName :: string
  Active :: bool

record IssueWatcherScheme =
  Self :: string
  IsWatching :: bool
  WatchCount :: int
  Watchers :: "Watcher list"

definition new_IssueWatcherScheme :: IssueWatcherScheme where
  "new_IssueWatcherScheme = \<lparr>Self = [], IsWatching = False, WatchCount = 0, Watchers = []\<rparr>"

text \<open>\<^verbatim>\<open>gjson.Result\<close> and its zero value \<^verbatim>\<open>gjson.Result{}\<close>.\<close>

datatype gjson_Type = Null | False_t | Number | String_t | True_t | JSON

record gjson_Result =
  gjson_Type :: gjson_Type
  Raw :: string
  Str :: string
  Num :: real
  Index :: int

definition gjson_Result_zero :: gjson_Result where
  "gjson_Result_zero = \<lparr>gjson_Type = Null, Raw = [], Str = [], Num = 0, Index = 0\<rparr>"

text \<open>
  Modelled from the spec: \<^verbatim>\<open>transformStructToReader\<close>, the helper that turns a payload
  structure into the body reader, is outside the files at hand.  The spec says that a
  service ``serializes request payload structures to JSON when the operation carries a
  body''; the first argument is the encoding of the payload's type.  The spec is silent
  on a nil payload; the model answers it with an error, which is what the error branch
  of the callers is for.
\<close>

definition transformStructToReader :: "('a \<Rightarrow> json) \<Rightarrow> 'a option \<Rightarrow> error + json" where
  "transformStructToReader marshal structure =
     (case structure of
        None \<Rightarrow> Inl StructureNotParsedError
      | Some s \<Rightarrow> Inr (marshal s))"

section \<open>FilterShareService (package \<^verbatim>\<open>v2\<close>)\<close>

text \<open>
  Every method returns its Go results followed by the record of what it did to the
  client.  The named results \<^verbatim>\<open>result\<close>, \<^verbatim>\<open>response\<close>, \<^verbatim>\<open>err\<close> start as
  \<^verbatim>\<open>nil\<close>; a bare \<^verbatim>\<open>return\<close> returns their current values, so the branch
  \<^verbatim>\<open>if err != nil { return }\<close> after \<^verbatim>\<open>call\<close> and the final \<^verbatim>\<open>return\<close> return the
  same triple.
\<close>

text \<open>
  \<^verbatim>\<open>Scope\<close> hands \<^verbatim>\<open>&response\<close> to \<^verbatim>\<open>call\<close>; what \<^verbatim>\<open>call\<close> stores there is
  overwritten by the assignment of \<^verbatim>\<open>call\<close>'s own results, and \<^verbatim>\<open>result\<close> is
  never assigned.
\<close>

definition FilterShareService_Scope ::
  "'v Client \<Rightarrow> ShareFilterScopeScheme option \<times> ResponseScheme option \<times> error option \<times> event list" where
  "FilterShareService_Scope c =
     (let endpoint = ''rest/api/2/filter/defaultShareScope'' in
      case newRequest c MethodGet endpoint None of
        Inl e \<Rightarrow> (None, None, Some e, [NewRequest MethodGet endpoint None])
      | Inr request \<Rightarrow>
          (let request = Header_Set request ''Accept'' ''application/json'';
               (stored, response, err) = call c request ResponseTarget
           in (None, response, err,
               [NewRequest MethodGet endpoint None, Call request ResponseTarget])))"

definition validScopeValuesAsList :: "string list" where
  "validScopeValuesAsList = [''GLOBAL'', ''AUTHENTICATED'', ''PRIVATE'']"

text \<open>The loop over the valid values, leaving at the first match.\<close>

fun isValidScope :: "string list \<Rightarrow> string \<Rightarrow> bool" where
  "isValidScope [] scope = False"
| "isValidScope (validScope # rest) scope =
     (if validScope = scope then True else isValidScope rest scope)"

definition FilterShareService_SetScope ::
  "'v Client \<Rightarrow> string \<Rightarrow> ResponseScheme option \<times> error option \<times> event list" where
  "FilterShareService_SetScope c scope =
     (let isValid = isValidScope validScopeValuesAsList scope in
      if \<not> isValid then
        (let validScopeValuesAsString = Join validScopeValuesAsList '','' in
         (None,
          Some (Errorf (''invalid scope, please provide one of the following: ''
                        @ validScopeValuesAsString)),
          []))
      else
        (let payload = \<lparr>Scope = scope\<rparr>;
             payloadAsReader =
               (case transformStructToReader Marshal_ShareFilterScopeScheme (Some payload) of
                  Inl e \<Rightarrow> None
                | Inr reader \<Rightarrow> Some reader);
             endpoint = ''rest/api/2/filter/defaultShareScope''
         in case newRequest c MethodPut endpoint payloadAsReader of
              Inl e \<Rightarrow> (None, Some e, [NewRequest MethodPut endpoint payloadAsReader])
            | Inr request \<Rightarrow>
                (let request = Header_Set request ''Accept'' ''application/json'';
                     request = Header_Set request ''Content-Type'' ''application/json'';
                     (stored, response, err) = call c request NoTarget
                 in (response, err,
                     [NewRequest MethodPut endpoint payloadAsReader, Call request NoTarget]))))"

definition FilterShareService_Gets ::
  "'v Client \<Rightarrow> int \<Rightarrow> 'v option \<times> ResponseScheme option \<times> error option \<times> event list" where
  "FilterShareService_Gets c filterID =
     (let endpoint = ''rest/api/2/filter/'' @ Itoa filterID @ ''/permission'' in
      case newRequest c MethodGet endpoint None of
        Inl e \<Rightarrow> (None, None, Some e, [NewRequest MethodGet endpoint None])
      | Inr request \<Rightarrow>
          (let request = Header_Set request ''Accept'' ''application/json'';
               (result, response, err) = call c request ResultTarget
           in (result, response, err,
               [NewRequest MethodGet endpoint None, Call request ResultTarget])))"

definition FilterShareService_Add ::
  "'v Client \<Rightarrow> int \<Rightarrow> PermissionFilterPayloadScheme option
     \<Rightarrow> 'v option \<times> ResponseScheme option \<times> error option \<times> event list" where
  "FilterShareService_Add c filterID payload =
     (case transformStructToReader Marshal_PermissionFilterPayloadScheme payload of
        Inl e \<Rightarrow> (None, None, Some e, [])
      | Inr payloadAsReader \<Rightarrow>
          (let endpoint = ''rest/api/2/filter/'' @ Itoa filterID @ ''/permission'' in
           case newRequest c MethodPost endpoint (Some payloadAsReader) of
             Inl e \<Rightarrow> (None, None, Some e, [NewRequest MethodPost endpoint (Some payloadAsReader)])
           | Inr request \<Rightarrow>
               (let request = Header_Set request ''Accept'' ''application/json'';
                    request = Header_Set request ''Content-Type'' ''application/json'';
                    (result, response, err) = call c request ResultTarget
                in (result, response, err,
                    [NewRequest MethodPost endpoint (Some payloadAsReader),
                     Call request ResultTarget]))))"

definition FilterShareService_Get ::
  "'v Client \<Rightarrow> int \<Rightarrow> int \<Rightarrow> 'v option \<times> ResponseScheme option \<times> error option \<times> event list" where
  "FilterShareService_Get c filterID permissionID =
     (let endpoint = ''rest/api/2/filter/'' @ Itoa filterID @ ''/permission/'' @ Itoa permissionID in
      case newRequest c MethodGet endpoint None of
        Inl e \<Rightarrow> (None, None, Some e, [NewRequest MethodGet endpoint None])
      | Inr request \<Rightarrow>
          (let (result, response, err) = call c request ResultTarget
           in (result, response, err,
               [NewRequest MethodGet endpoint None, Call request ResultTarget])))"

definition FilterShareService_Delete ::
  "'v Client \<Rightarrow> int \<Rightarrow> int \<Rightarrow> ResponseScheme option \<times> error option \<times> event list" where
  "FilterShareService_Delete c filterID permissionID =
     (let endpoint = ''rest/api/2/filter/'' @ Itoa filterID @ ''/permission/'' @ Itoa permissionID in
      case newRequest c MethodDelete endpoint None of
        Inl e \<Rightarrow> (None, Some e, [NewRequest MethodDelete endpoint None])
      | Inr request \<Rightarrow>
          (let (stored, response, err) = call c request NoTarget
           in (response, err,
               [NewRequest MethodDelete endpoint None, Call request NoTarget])))"

section \<open>ProjectVersionService (package \<^verbatim>\<open>v2\<close>)\<close>

definition ProjectVersionService_Gets ::
  "'v Client \<Rightarrow> string \<Rightarrow> 'v option \<times> ResponseScheme option \<times> error option \<times> event list" where
  "ProjectVersionService_Gets c projectKeyOrID =
     (if length projectKeyOrID = 0 then (None, None, Some ErrNoProjectIDError, [])
      else
        (let endpoint = ''rest/api/2/project/'' @ projectKeyOrID @ ''/versions'' in
         case newRequest c MethodGet endpoint None of
           Inl e \<Rightarrow> (None, None, Some e, [NewRequest MethodGet endpoint None])
         | Inr request \<Rightarrow>
             (let request = Header_Set request ''Accept'' ''application/json'';
                  (result, response, err) = call c request ResultTarget
              in (result, response, err,
                  [NewRequest MethodGet endpoint None, Call request ResultTarget]))))"

text \<open>The query parameters of \<^verbatim>\<open>Search\<close>, as the method adds them.\<close>

definition ProjectVersionService_Search_params ::
  "VersionGetsOptions option \<Rightarrow> int \<Rightarrow> int \<Rightarrow> Values" where
  "ProjectVersionService_Search_params options startAt maxResults =
     (let params = [];
          params = Values_Add params ''startAt'' (Itoa startAt);
          params = Values_Add params ''maxResults'' (Itoa maxResults)
      in case options of
           None \<Rightarrow> params
         | Some opts \<Rightarrow>
             (let params = (if length (Expand opts) \<noteq> 0
                            then Values_Add params ''expand'' (Join (Expand opts) '','')
                            else params);
                  params = (if length (Query opts) \<noteq> 0
                            then Values_Add params ''query'' (Query opts) else params);
                  params = (if length (Status opts) \<noteq> 0
                            then Values_Add params ''status'' (Status opts) else params);
                  params = (if length (OrderBy opts) \<noteq> 0
                            then Values_Add params ''orderBy'' (OrderBy opts) else params)
              in params))"

definition ProjectVersionService_Search_endpoint ::
  "string \<Rightarrow> VersionGetsOptions option \<Rightarrow> int \<Rightarrow> int \<Rightarrow> string" where
  "ProjectVersionService_Search_endpoint projectKeyOrID options startAt maxResults =
     ''rest/api/2/project/'' @ projectKeyOrID @ ''/version?''
       @ Encode (ProjectVersionService_Search_params options startAt maxResults)"

definition ProjectVersionService_Search ::
  "'v Client \<Rightarrow> string \<Rightarrow> VersionGetsOptions option \<Rightarrow> int \<Rightarrow> int
     \<Rightarrow> 'v option \<times> ResponseScheme option \<times> error option \<times> event list" where
  "ProjectVersionService_Search c projectKeyOrID options startAt maxResults =
     (if length projectKeyOrID = 0 then (None, None, Some ErrNoProjectIDError, [])
      else
        (let endpoint = ProjectVersionService_Search_endpoint projectKeyOrID options startAt maxResults in
         case newRequest c MethodGet endpoint None of
           Inl e \<Rightarrow> (None, None, Some e, [NewRequest MethodGet endpoint None])
         | Inr request \<Rightarrow>
             (let request = Header_Set request ''Accept'' ''application/json'';
                  (result, response, err) = call c request ResultTarget
              in (result, response, err,
                  [NewRequest MethodGet endpoint None, Call request ResultTarget]))))"

text \<open>
  \<^verbatim>\<open>models.VersionPayloadScheme\<close> is declared outside the files at hand: the payload
  type and its JSON encoding are parameters of \<^verbatim>\<open>Create\<close> and \<^verbatim>\<open>Update\<close>.
\<close>

definition ProjectVersionService_Create ::
  "('p \<Rightarrow> json) \<Rightarrow> 'v Client \<Rightarrow> 'p option
     \<Rightarrow> 'v option \<times> ResponseScheme option \<times> error option \<times> event list" where
  "ProjectVersionService_Create marshalPayload c payload =
     (let endpoint = ''rest/api/2/version'' in
      case transformStructToReader marshalPayload payload of
        Inl e \<Rightarrow> (None, None, Some e, [])
      | Inr payloadAsReader \<Rightarrow>
          (case newRequest c MethodPost endpoint (Some payloadAsReader) of
             Inl e \<Rightarrow> (None, None, Some e, [NewRequest MethodPost endpoint (Some payloadAsReader)])
           | Inr request \<Rightarrow>
               (let request = Header_Set request ''Accept'' ''application/json'';
                    request = Header_Set request ''Content-Type'' ''application/json'';
                    (result, response, err) = call c request ResultTarget
                in (result, response, err,
                    [NewRequest MethodPost endpoint (Some payloadAsReader),
                     Call request ResultTarget]))))"

definition ProjectVersionService_Get_params :: "string list \<Rightarrow> Values" where
  "ProjectVersionService_Get_params expand =
     (let params = [] in
      if length expand \<noteq> 0 then Values_Add params ''expand'' (Join expand '','') else params)"

definition ProjectVersionService_Get_endpoint :: "string \<Rightarrow> string list \<Rightarrow> string" where
  "ProjectVersionService_Get_endpoint versionID expand =
     (let params = ProjectVersionService_Get_params expand;
          endpoint = ''rest/api/2/version/'' @ versionID
      in if Encode params \<noteq> [] then endpoint @ ''?'' @ Encode params else endpoint)"

definition ProjectVersionService_Get ::
  "'v Client \<Rightarrow> string \<Rightarrow> string list
     \<Rightarrow> 'v option \<times> ResponseScheme option \<times> error option \<times> event list" where
  "ProjectVersionService_Get c versionID expand =
     (if length versionID = 0 then (None, None, Some ErrNoVersionIDError, [])
      else
        (let endpoint = ProjectVersionService_Get_endpoint versionID expand in
         case newRequest c MethodGet endpoint None of
           Inl e \<Rightarrow> (None, None, Some e, [NewRequest MethodGet endpoint None])
         | Inr request \<Rightarrow>
             (let request = Header_Set request ''Accept'' ''application/json'';
                  (result, response, err) = call c request ResultTarget
              in (result, response, err,
                  [NewRequest MethodGet endpoint None, Call request ResultTarget]))))"

definition ProjectVersionService_Update ::
  "('p \<Rightarrow> json) \<Rightarrow> 'v Client \<Rightarrow> string \<Rightarrow> 'p option
     \<Rightarrow> 'v option \<times> ResponseScheme option \<times> error option \<times> event list" where
  "ProjectVersionService_Update marshalPayload c versionID payload =
     (if length versionID = 0 then (None, None, Some ErrNoVersionIDError, [])
      else
        (let endpoint = ''rest/api/2/version/'' @ versionID in
         case transformStructToReader marshalPayload payload of
           Inl e \<Rightarrow> (None, None, Some e, [])
         | Inr payloadAsReader \<Rightarrow>
             (case newRequest c MethodPut endpoint (Some payloadAsReader) of
                Inl e \<Rightarrow> (None, None, Some e, [NewRequest MethodPut endpoint (Some payloadAsReader)])
              | Inr request \<Rightarrow>
                  (let request = Header_Set request ''Accept'' ''application/json'';
                       request = Header_Set request ''Content-Type'' ''application/json'';
                       (result, response, err) = call c request ResultTarget
                   in (result, response, err,
                       [NewRequest MethodPut endpoint (Some payloadAsReader),
                        Call request ResultTarget])))))"

definition ProjectVersionService_Merge ::
  "'v Client \<Rightarrow> string \<Rightarrow> string \<Rightarrow> ResponseScheme option \<times> error option \<times> event list" where
  "ProjectVersionService_Merge c versionID versionMoveIssuesTo =
     (if length versionID = 0 then (None, Some ErrNoVersionIDError, [])
      else if length versionMoveIssuesTo = 0 then (None, Some ErrNoVersionIDError, [])
      else
        (let endpoint = ''rest/api/2/version/'' @ versionID @ ''/mergeto/'' @ versionMoveIssuesTo in
         case newRequest c MethodPut endpoint None of
           Inl e \<Rightarrow> (None, Some e, [NewRequest MethodPut endpoint None])
         | Inr request \<Rightarrow>
             (let request = Header_Set request ''Accept'' ''application/json'';
                  (stored, response, err) = call c request NoTarget
              in (response, err,
                  [NewRequest MethodPut endpoint None, Call request NoTarget]))))"

definition ProjectVersionService_RelatedIssueCounts ::
  "'v Client \<Rightarrow> string \<Rightarrow> 'v option \<times> ResponseScheme option \<times> error option \<times> event list" where
  "ProjectVersionService_RelatedIssueCounts c versionID =
     (if length versionID = 0 then (None, None, Some ErrNoVersionIDError, [])
      else
        (let endpoint = ''rest/api/2/version/'' @ versionID @ ''/relatedIssueCounts'' in
         case newRequest c MethodGet endpoint None of
           Inl e \<Rightarrow> (None, None, Some e, [NewRequest MethodGet endpoint None])
         | Inr request \<Rightarrow>
             (let request = Header_Set request ''Accept'' ''application/json'';
                  (result, response, err) = call c request ResultTarget
              in (result, response, err,
                  [NewRequest MethodGet endpoint None, Call request ResultTarget]))))"

definition ProjectVersionService_UnresolvedIssueCount ::
  "'v Client \<Rightarrow> string \<Rightarrow> 'v option \<times> ResponseScheme option \<times> error option \<times> event list" where
  "ProjectVersionService_UnresolvedIssueCount c versionID =
     (if length versionID = 0 then (None, None, Some ErrNoVersionIDError, [])
      else
        (let endpoint = ''rest/api/2/version/'' @ versionID @ ''/unresolvedIssueCount'' in
         case newRequest c MethodGet endpoint None of
           Inl e \<Rightarrow> (None, None, Some e, [NewRequest MethodGet endpoint None])
         | Inr request \<Rightarrow>
             (let request = Header_Set request ''Accept'' ''application/json'';
                  (result, response, err) = call c request ResultTarget
              in (result, response, err,
                  [NewRequest MethodGet endpoint None, Call request ResultTarget]))))"

section \<open>IssueMetadataService (package \<^verbatim>\<open>v2\<close>)\<close>

definition IssueMetadataService_Get_params :: "bool \<Rightarrow> bool \<Rightarrow> Values" where
  "IssueMetadataService_Get_params overrideScreenSecurity overrideEditableFlag =
     (let params = [];
          params = (if overrideEditableFlag
                    then Values_Add params ''overrideEditableFlag'' ''true'' else params);
          params = (if overrideScreenSecurity
                    then Values_Add params ''overrideScreenSecurity'' ''true'' else params)
      in params)"

definition IssueMetadataService_Get_endpoint :: "string \<Rightarrow> bool \<Rightarrow> bool \<Rightarrow> string" where
  "IssueMetadataService_Get_endpoint issueKeyOrID overrideScreenSecurity overrideEditableFlag =
     (let params = IssueMetadataService_Get_params overrideScreenSecurity overrideEditableFlag;
          endpoint = ''rest/api/2/issue/'' @ issueKeyOrID @ ''/editmeta''
      in if Encode params \<noteq> [] then endpoint @ ''?'' @ Encode params else endpoint)"

text \<open>
  \<^verbatim>\<open>gjson.ParseBytes\<close> is the first parameter.  After a \<^verbatim>\<open>call\<close> without error the
  method reads \<^verbatim>\<open>response.Bytes\<close>; on a nil \<^verbatim>\<open>response\<close> that read panics.
\<close>

definition IssueMetadataService_Get ::
  "(string \<Rightarrow> gjson_Result) \<Rightarrow> 'v Client \<Rightarrow> string \<Rightarrow> bool \<Rightarrow> bool
     \<Rightarrow> panic \<times> event list
         + gjson_Result \<times> ResponseScheme option \<times> error option \<times> event list" where
  "IssueMetadataService_Get ParseBytes c issueKeyOrID overrideScreenSecurity overrideEditableFlag =
     (if length issueKeyOrID = 0 then Inr (gjson_Result_zero, None, Some ErrNoIssueKeyOrIDError, [])
      else
        (let endpoint = IssueMetadataService_Get_endpoint issueKeyOrID overrideScreenSecurity
                          overrideEditableFlag in
         case newRequest c MethodGet endpoint None of
           Inl e \<Rightarrow> Inr (gjson_Result_zero, None, Some e, [NewRequest MethodGet endpoint None])
         | Inr request \<Rightarrow>
             (let request = Header_Set request ''Accept'' ''application/json'';
                  (stored, response, err) = call c request NoTarget;
                  trace = [NewRequest MethodGet endpoint None, Call request NoTarget]
              in if err \<noteq> None then Inr (gjson_Result_zero, response, err, trace)
                 else case response of
                        None \<Rightarrow> Inl (NilPointerDereference, trace)
                      | Some r \<Rightarrow> Inr (ParseBytes (Bytes r), response, None, trace))))"

section \<open>WatcherService (package \<^verbatim>\<open>jira\<close>)\<close>

text \<open>
  \<^verbatim>\<open>json.Unmarshal(bytes, &result)\<close> is the first parameter of \<^verbatim>\<open>Get\<close>: from the
  bytes and the current value of \<^verbatim>\<open>result\<close> it gives the new value and the error.
\<close>

definition WatcherService_Get ::
  "(string \<Rightarrow> IssueWatcherScheme option \<Rightarrow> IssueWatcherScheme option \<times> error option)
     \<Rightarrow> jira_Client \<Rightarrow> string
     \<Rightarrow> panic \<times> event list
         + IssueWatcherScheme option \<times> Response option \<times> error option \<times> event list" where
  "WatcherService_Get Unmarshal c issueKeyOrID =
     (let endpoint = ''rest/api/3/issue/'' @ issueKeyOrID @ ''/watchers'' in
      case jira_newRequest c MethodGet endpoint None of
        Inl e \<Rightarrow> Inr (None, None, Some e, [NewRequest MethodGet endpoint None])
      | Inr request \<Rightarrow>
          (let request = Header_Set request ''Content-Type'' ''application/json'';
               (response, err) = jira_Do c request;
               trace = [NewRequest MethodGet endpoint None, Do request]
           in if err \<noteq> None then Inr (None, response, err, trace)
              else case response of
                     None \<Rightarrow> Inl (NilPointerDereference, trace)
                   | Some r \<Rightarrow>
                       (let result = Some new_IssueWatcherScheme;
                            (result, err) = Unmarshal (BodyAsBytes r) result
                        in Inr (result, response, err, trace))))"

definition WatcherService_Add ::
  "jira_Client \<Rightarrow> string \<Rightarrow> Response option \<times> error option \<times> event list" where
  "WatcherService_Add c issueKeyOrID =
     (let endpoint = ''rest/api/3/issue/'' @ issueKeyOrID @ ''/watchers'' in
      case jira_newRequest c MethodPost endpoint None of
        Inl e \<Rightarrow> (None, Some e, [NewRequest MethodPost endpoint None])
      | Inr request \<Rightarrow>
          (let request = Header_Set request ''Content-Type'' ''application/json'';
               (response, err) = jira_Do c request
           in (response, err, [NewRequest MethodPost endpoint None, Do request])))"

definition WatcherService_Delete ::
  "jira_Client \<Rightarrow> string \<Rightarrow> Response option \<times> error option \<times> event list" where
  "WatcherService_Delete c issueKeyOrID =
     (let endpoint = ''rest/api/3/issue/'' @ issueKeyOrID @ ''/watchers'' in
      case jira_newRequest c MethodDelete endpoint None of
        Inl e \<Rightarrow> (None, Some e, [NewRequest MethodDelete endpoint None])
      | Inr request \<Rightarrow>
          (let request = Header_Set request ''Content-Type'' ''application/json'';
               (response, err) = jira_Do c request
           in (response, err, [NewRequest MethodDelete endpoint None, Do request])))"

section \<open>The client, from its description\<close>

text \<open>
  Modelled from the spec: the request builder \<^verbatim>\<open>newRequest\<close> and the operation
  \<^verbatim>\<open>call\<close> of the client are outside the files at hand.  Section 4.1 of the spec:
  the builder ``constructs a request object merging default headers with caller-supplied
  ones'' against the configured base host; \<^verbatim>\<open>send\<close> ``performs the call, populates
  the response envelope, and if target is non-nil, deserializes the JSON body into it.
  Fails with a transport error when the network call cannot complete, and with a decode
  error when the body is not valid JSON matching the target shape'', with ``exactly one
  network round trip per invocation''; section 7: errors are returned ``alongside the
  partial response envelope when available''.  The network (from a request to a transport
  error or a status code and body) and the JSON decoder are parameters.
\<close>

definition spec_newRequest ::
  "string \<Rightarrow> (string \<times> string list) list \<Rightarrow> http_method \<Rightarrow> string \<Rightarrow> json option
     \<Rightarrow> error + Request" where
  "spec_newRequest host defaultHeaders method path body =
     Inr \<lparr>Method = method, URL = host @ path, Body = body, Header = defaultHeaders\<rparr>"

definition spec_call ::
  "(Request \<Rightarrow> error + int \<times> string) \<Rightarrow> (string \<Rightarrow> error + 'v) \<Rightarrow> Request \<Rightarrow> target
     \<Rightarrow> 'v option \<times> ResponseScheme option \<times> error option" where
  "spec_call transport decode request tgt =
     (case transport request of
        Inl e \<Rightarrow> (None, None, Some e)
      | Inr (status, body) \<Rightarrow>
          (let envelope = \<lparr>Code = status, EndpointV2 = URL request, Bytes = body\<rparr> in
           if tgt = NoTarget then (None, Some envelope, None)
           else case decode body of
                  Inl e \<Rightarrow> (None, Some envelope, Some e)
                | Inr v \<Rightarrow> (Some v, Some envelope, None)))"

definition spec_Client ::
  "string \<Rightarrow> (string \<times> string list) list \<Rightarrow> (Request \<Rightarrow> error + int \<times> string)
     \<Rightarrow> (string \<Rightarrow> error + 'v) \<Rightarrow> 'v Client" where
  "spec_Client host defaultHeaders transport decode =
     \<lparr>newRequest = spec_newRequest host defaultHeaders, call = spec_call transport decode\<rparr>"

subsection \<open>Sample clients\<close>

text \<open>A server that answers every request with status 200 and an empty object.\<close>

definition sample_Client :: "json Client" where
  "sample_Client =
     spec_Client ''https://example.atlassian.net/'' [(''User-Agent'', [''curl/7.54.0''])]
       (\<lambda>request. Inr (200, ''{}'')) (\<lambda>body. Inr (JObject []))"

definition sample_jira_Client :: jira_Client where
  "sample_jira_Client =
     \<lparr>jira_newRequest = spec_newRequest ''https://example.atlassian.net/'' [],
      jira_Do = (\<lambda>request. (Some \<lparr>StatusCode = 200, Endpoint = URL request, BodyAsBytes = ''{}''\<rparr>,
                             None))\<rparr>"

section \<open>Reading a run\<close>

text \<open>The requests a method built, in order, out of its record.\<close>

fun requests_built :: "event list \<Rightarrow> (http_method \<times> string \<times> json option) list" where
  "requests_built [] = []"
| "requests_built (NewRequest m e b # es) = (m, e, b) # requests_built es"
| "requests_built (Call r t # es) = requests_built es"
| "requests_built (Do r # es) = requests_built es"

text \<open>The record of a method that may panic.\<close>

definition run_trace :: "panic \<times> event list + 'a \<times> 'b \<times> 'c \<times> event list \<Rightarrow> event list" where
  "run_trace r = (case r of Inl (p, trace) \<Rightarrow> trace | Inr (result, response, err, trace) \<Rightarrow> trace)"

text \<open>The members of a JSON object.\<close>

fun members :: "json \<Rightarrow> (string \<times> json) list" where
  "members (JObject ms) = ms"
| "members j = []"

text \<open>
  The request that \<^verbatim>\<open>SetScope\<close> hands to \<^verbatim>\<open>call\<close> when the client is the one of
  section 4.1: the built \<^verbatim>\<open>PUT\<close> with the two headers set.
\<close>

definition SetScope_request :: "string \<Rightarrow> (string \<times> string list) list \<Rightarrow> string \<Rightarrow> Request" where
  "SetScope_request host hdrs scope =
     Header_Set
       (Header_Set \<lparr>Method = MethodPut, URL = host @ ''rest/api/2/filter/defaultShareScope'',
                    Body = Some (JObject [(''scope'', JString scope)]), Header = hdrs\<rparr>
          ''Accept'' ''application/json'')
       ''Content-Type'' ''application/json''"

section \<open>Validation before any request\<close>

lemma isValidScope_iff: "isValidScope vs scope \<longleftrightarrow> scope \<in> set vs"
  by (induction vs) auto

text \<open>
  Claim C4.  For every scope string that is not exactly one of \<^verbatim>\<open>GLOBAL\<close>,
  \<^verbatim>\<open>AUTHENTICATED\<close>, \<^verbatim>\<open>PRIVATE\<close> (lowercase variants and the empty string
  included), \<^verbatim>\<open>FilterShareService.SetScope\<close> returns a non-nil validation error and
  performs no network call: whatever the client, the error is the ``invalid scope''
  message, the response is nil, and no request was built or sent.
\<close>

theorem SetScope_invalid_scope:
  assumes "scope \<notin> {''GLOBAL'', ''AUTHENTICATED'', ''PRIVATE''}"
  shows "FilterShareService_SetScope c scope =
           (None,
            Some (Errorf ''invalid scope, please provide one of the following: GLOBAL,AUTHENTICATED,PRIVATE''),
            [])"
  using assms
  by (simp add: FilterShareService_SetScope_def isValidScope_iff validScopeValuesAsList_def)

theorem SetScope_invalid_scope_witness:
  "''global'' \<notin> {''GLOBAL'', ''AUTHENTICATED'', ''PRIVATE''}
   \<and> [] \<notin> {''GLOBAL'', ''AUTHENTICATED'', ''PRIVATE''}
   \<and> FilterShareService_SetScope sample_Client ''global'' =
        (None,
         Some (Errorf ''invalid scope, please provide one of the following: GLOBAL,AUTHENTICATED,PRIVATE''),
         [])
   \<and> FilterShareService_SetScope sample_Client [] =
        (None,
         Some (Errorf ''invalid scope, please provide one of the following: GLOBAL,AUTHENTICATED,PRIVATE''),
         [])"
  using SetScope_invalid_scope [of "''global''" sample_Client]
    SetScope_invalid_scope [of "[]" sample_Client]
  by simp

text \<open>
  Claim C8.  For every pair of strings where \<^verbatim>\<open>versionID\<close> is empty or
  \<^verbatim>\<open>versionMoveIssuesTo\<close> is empty, \<^verbatim>\<open>ProjectVersionService.Merge\<close> returns the
  no-version-ID error before building or sending any request.
\<close>

theorem Merge_empty_version:
  assumes "versionID = [] \<or> versionMoveIssuesTo = []"
  shows "ProjectVersionService_Merge c versionID versionMoveIssuesTo =
           (None, Some ErrNoVersionIDError, [])"
  using assms by (auto simp add: ProjectVersionService_Merge_def)

theorem Merge_empty_version_witness:
  "([] = ([] :: string) \<or> ''10001'' = [])
   \<and> ProjectVersionService_Merge sample_Client [] ''10001'' = (None, Some ErrNoVersionIDError, [])
   \<and> (''10000'' = [] \<or> [] = ([] :: string))
   \<and> ProjectVersionService_Merge sample_Client ''10000'' [] = (None, Some ErrNoVersionIDError, [])"
  using Merge_empty_version [of "[]" "''10001''" sample_Client]
    Merge_empty_version [of "''10000''" "[]" sample_Client]
  by simp

section \<open>The result of \<^verbatim>\<open>Scope\<close>\<close>

text \<open>
  Claim C2.  For every call to \<^verbatim>\<open>FilterShareService.Scope\<close> that returns a nil
  error, the returned result is nil: the decode target handed to \<^verbatim>\<open>client.call\<close> is
  \<^verbatim>\<open>&response\<close>, not \<^verbatim>\<open>&result\<close>, so the decoded scope is never stored in the
  typed result.
\<close>

theorem Scope_result_nil:
  assumes "FilterShareService_Scope c = (result, response, err, trace)" and "err = None"
  shows "result = None \<and>
         (\<exists>request. trace = [NewRequest MethodGet ''rest/api/2/filter/defaultShareScope'' None,
                              Call request ResponseTarget])"
  using assms
  by (auto simp add: FilterShareService_Scope_def Let_def split: sum.splits prod.splits)

theorem Scope_result_nil_witness:
  "fst (snd (snd (FilterShareService_Scope sample_Client))) = None
   \<and> fst (FilterShareService_Scope sample_Client) = None"
proof -
  obtain result response err trace
    where eq: "FilterShareService_Scope sample_Client = (result, response, err, trace)"
    by (cases "FilterShareService_Scope sample_Client") auto
  have nil: "err = None"
    using eq
    by (simp add: FilterShareService_Scope_def sample_Client_def spec_Client_def
        spec_newRequest_def spec_call_def Let_def)
  from Scope_result_nil [OF eq nil] have "result = None" by simp
  with eq nil show ?thesis by simp
qed

section \<open>Paths and bodies of the filter-sharing methods\<close>

lemma digit_char_in: "d < 10 \<Longrightarrow> digit_char d \<in> set ''0123456789''"
  unfolding digit_char_def by (rule nth_mem) simp

lemma set_digits: "set (digits n) \<subseteq> set ''0123456789''"
proof (induction n rule: digits.induct)
  case (1 n)
  show ?case
  proof (cases "n < 10")
    case True
    then show ?thesis using digit_char_in [of n] by (subst digits.simps) simp
  next
    case False
    have "n mod 10 < 10" by simp
    then have "digit_char (n mod 10) \<in> set ''0123456789''" by (rule digit_char_in)
    with 1 False show ?thesis by (subst digits.simps) simp
  qed
qed

lemma Itoa_no_question: "CHR ''?'' \<notin> set (Itoa i)"
proof -
  have "CHR ''?'' \<notin> set (digits n)" for n
    using set_digits [of n] by auto
  then show ?thesis by (simp add: Itoa_def)
qed

lemma Gets_built:
  "requests_built (snd (snd (snd (FilterShareService_Gets c filterID)))) =
     [(MethodGet, ''rest/api/2/filter/'' @ Itoa filterID @ ''/permission'', None)]"
  by (simp add: FilterShareService_Gets_def Let_def split: sum.splits prod.splits)

lemma Add_built:
  "requests_built (snd (snd (snd (FilterShareService_Add c filterID (Some payload))))) =
     [(MethodPost, ''rest/api/2/filter/'' @ Itoa filterID @ ''/permission'',
       Some (Marshal_PermissionFilterPayloadScheme payload))]"
  by (simp add: FilterShareService_Add_def transformStructToReader_def Let_def
      split: sum.splits prod.splits)

lemma Get_built:
  "requests_built (snd (snd (snd (FilterShareService_Get c filterID permissionID)))) =
     [(MethodGet, ''rest/api/2/filter/'' @ Itoa filterID @ ''/permission/'' @ Itoa permissionID,
       None)]"
  by (simp add: FilterShareService_Get_def Let_def split: sum.splits prod.splits)

lemma Delete_built:
  "requests_built (snd (snd (FilterShareService_Delete c filterID permissionID))) =
     [(MethodDelete, ''rest/api/2/filter/'' @ Itoa filterID @ ''/permission/'' @ Itoa permissionID,
       None)]"
  by (simp add: FilterShareService_Delete_def Let_def split: sum.splits prod.splits)

text \<open>
  Claim C7.  For every \<^verbatim>\<open>filterID\<close> and \<^verbatim>\<open>permissionID\<close>, \<^verbatim>\<open>Gets\<close> and
  \<^verbatim>\<open>Add\<close> build the endpoint \<^verbatim>\<open>rest/api/2/filter/{filterID}/permission\<close>, \<^verbatim>\<open>Get\<close>
  and \<^verbatim>\<open>Delete\<close> build \<^verbatim>\<open>rest/api/2/filter/{filterID}/permission/{permissionID}\<close>,
  the identifiers in decimal; each method builds exactly that one request, and neither
  endpoint carries a query part (no \<^verbatim>\<open>?\<close> occurs in it).
\<close>

theorem filter_permission_paths:
  "requests_built (snd (snd (snd (FilterShareService_Gets c filterID)))) =
     [(MethodGet, ''rest/api/2/filter/'' @ Itoa filterID @ ''/permission'', None)]
   \<and> requests_built (snd (snd (snd (FilterShareService_Add c filterID (Some payload))))) =
     [(MethodPost, ''rest/api/2/filter/'' @ Itoa filterID @ ''/permission'',
       Some (Marshal_PermissionFilterPayloadScheme payload))]
   \<and> requests_built (snd (snd (snd (FilterShareService_Get c filterID permissionID)))) =
     [(MethodGet, ''rest/api/2/filter/'' @ Itoa filterID @ ''/permission/'' @ Itoa permissionID,
       None)]
   \<and> requests_built (snd (snd (FilterShareService_Delete c filterID permissionID))) =
     [(MethodDelete, ''rest/api/2/filter/'' @ Itoa filterID @ ''/permission/'' @ Itoa permissionID,
       None)]
   \<and> CHR ''?'' \<notin> set (''rest/api/2/filter/'' @ Itoa filterID @ ''/permission'')
   \<and> CHR ''?'' \<notin> set (''rest/api/2/filter/'' @ Itoa filterID @ ''/permission/''
                          @ Itoa permissionID)"
  by (simp add: Gets_built Add_built Get_built Delete_built Itoa_no_question)

text \<open>
  Claim C6.  Serializing \<^verbatim>\<open>PermissionFilterPayloadScheme{Type:"group", GroupName:"eng"}\<close>
  as the body of \<^verbatim>\<open>FilterShareService.Add\<close> produces a JSON object that contains the
  pair \<^verbatim>\<open>"groupname":"eng"\<close> and neither the key \<^verbatim>\<open>projectId\<close> nor the key
  \<^verbatim>\<open>projectRoleId\<close>: the body of the one request \<^verbatim>\<open>Add\<close> builds is the object with
  the members \<^verbatim>\<open>type\<close> and \<^verbatim>\<open>groupname\<close> only.
\<close>

theorem Add_group_payload_body:
  "requests_built (snd (snd (snd (FilterShareService_Add c filterID
      (Some \<lparr>Type = ''group'', ProjectID = [], GroupName = ''eng'', ProjectRoleID = []\<rparr>))))) =
     [(MethodPost, ''rest/api/2/filter/'' @ Itoa filterID @ ''/permission'',
       Some (JObject [(''type'', JString ''group''), (''groupname'', JString ''eng'')]))]
   \<and> (''groupname'', JString ''eng'') \<in> set (members (Marshal_PermissionFilterPayloadScheme
         \<lparr>Type = ''group'', ProjectID = [], GroupName = ''eng'', ProjectRoleID = []\<rparr>))
   \<and> ''projectId'' \<notin> fst ` set (members (Marshal_PermissionFilterPayloadScheme
         \<lparr>Type = ''group'', ProjectID = [], GroupName = ''eng'', ProjectRoleID = []\<rparr>))
   \<and> ''projectRoleId'' \<notin> fst ` set (members (Marshal_PermissionFilterPayloadScheme
         \<lparr>Type = ''group'', ProjectID = [], GroupName = ''eng'', ProjectRoleID = []\<rparr>))"
  by (simp add: Add_built)
    (simp add: Marshal_PermissionFilterPayloadScheme_def string_field_def)

section \<open>\<^verbatim>\<open>SetScope\<close> with a valid scope\<close>

lemma SetScope_built:
  assumes "isValidScope validScopeValuesAsList scope"
  shows "requests_built (snd (snd (FilterShareService_SetScope c scope))) =
           [(MethodPut, ''rest/api/2/filter/defaultShareScope'',
             Some (JObject [(''scope'', JString scope)]))]"
  using assms
  by (simp add: FilterShareService_SetScope_def transformStructToReader_def Let_def
        Marshal_ShareFilterScopeScheme_def string_field_def split: sum.splits prod.splits)

lemma SetScope_spec_Client:
  assumes "isValidScope validScopeValuesAsList scope"
  shows "FilterShareService_SetScope (spec_Client host hdrs transport decode) scope =
      (case spec_call transport decode (SetScope_request host hdrs scope) NoTarget of
         (stored, response, err) \<Rightarrow>
           (response, err, [NewRequest MethodPut ''rest/api/2/filter/defaultShareScope''
              (Some (JObject [(''scope'', JString scope)])),
            Call (SetScope_request host hdrs scope) NoTarget]))"
  using assms
  by (simp add: FilterShareService_SetScope_def transformStructToReader_def Let_def
        Marshal_ShareFilterScopeScheme_def string_field_def spec_Client_def spec_newRequest_def
        SetScope_request_def)

lemma spec_call_NoTarget:
  "spec_call transport decode request NoTarget =
     (case transport request of
        Inl e \<Rightarrow> (None, None, Some e)
      | Inr (status, body) \<Rightarrow>
          (None, Some \<lparr>Code = status, EndpointV2 = URL request, Bytes = body\<rparr>, None))"
  by (simp add: spec_call_def Let_def split: sum.splits prod.splits)

lemma URL_SetScope_request:
  "URL (SetScope_request host hdrs scope) = host @ ''rest/api/2/filter/defaultShareScope''"
  by (simp add: SetScope_request_def Header_Set_def)

text \<open>
  Claim C5.  For every scope in \<^verbatim>\<open>{GLOBAL, AUTHENTICATED, PRIVATE}\<close>,
  \<^verbatim>\<open>FilterShareService.SetScope\<close> issues exactly one HTTP \<^verbatim>\<open>PUT\<close> to
  \<^verbatim>\<open>rest/api/2/filter/defaultShareScope\<close> whose JSON body is the object
  \<^verbatim>\<open>{"scope": "<value>"}\<close>, and returns a nil error when the transport call succeeds
  with a 2xx response.  With any client, the one request built is that \<^verbatim>\<open>PUT\<close>; with
  the client of section 4.1 the run is: build the \<^verbatim>\<open>PUT\<close>, send it once without a
  decode target; and when the network answers that request with a status from 200 to 299
  the error is nil and the envelope carries the status and body.
\<close>

theorem SetScope_valid_scope:
  assumes "scope \<in> {''GLOBAL'', ''AUTHENTICATED'', ''PRIVATE''}"
  shows "requests_built (snd (snd (FilterShareService_SetScope c scope))) =
           [(MethodPut, ''rest/api/2/filter/defaultShareScope'',
             Some (JObject [(''scope'', JString scope)]))]
       \<and> snd (snd (FilterShareService_SetScope (spec_Client host hdrs transport decode) scope)) =
           [NewRequest MethodPut ''rest/api/2/filter/defaultShareScope''
              (Some (JObject [(''scope'', JString scope)])),
            Call (SetScope_request host hdrs scope) NoTarget]
       \<and> (transport (SetScope_request host hdrs scope) = Inr (status, body)
            \<and> 200 \<le> status \<and> status < 300 \<longrightarrow>
          fst (snd (FilterShareService_SetScope (spec_Client host hdrs transport decode) scope)) = None
          \<and> fst (FilterShareService_SetScope (spec_Client host hdrs transport decode) scope) =
              Some \<lparr>Code = status, EndpointV2 = host @ ''rest/api/2/filter/defaultShareScope'',
                    Bytes = body\<rparr>)"
proof -
  have valid: "isValidScope validScopeValuesAsList scope"
    using assms by (auto simp add: isValidScope_iff validScopeValuesAsList_def)
  show ?thesis
    by (simp add: SetScope_built [OF valid] SetScope_spec_Client [OF valid] spec_call_NoTarget
        URL_SetScope_request split: sum.splits prod.splits)
qed

theorem SetScope_valid_scope_witness:
  "''GLOBAL'' \<in> {''GLOBAL'', ''AUTHENTICATED'', ''PRIVATE''}
   \<and> FilterShareService_SetScope sample_Client ''GLOBAL'' =
       (Some \<lparr>Code = 200,
              EndpointV2 = ''https://example.atlassian.net/rest/api/2/filter/defaultShareScope'',
              Bytes = ''{}''\<rparr>,
        None,
        [NewRequest MethodPut ''rest/api/2/filter/defaultShareScope''
           (Some (JObject [(''scope'', JString ''GLOBAL'')])),
         Call \<lparr>Method = MethodPut,
               URL = ''https://example.atlassian.net/rest/api/2/filter/defaultShareScope'',
               Body = Some (JObject [(''scope'', JString ''GLOBAL'')]),
               Header = [(''User-Agent'', [''curl/7.54.0'']), (''Accept'', [''application/json'']),
                         (''Content-Type'', [''application/json''])]\<rparr> NoTarget])"
proof -
  have req: "SetScope_request ''https://example.atlassian.net/''
               [(''User-Agent'', [''curl/7.54.0''])] ''GLOBAL'' =
     \<lparr>Method = MethodPut,
      URL = ''https://example.atlassian.net/rest/api/2/filter/defaultShareScope'',
      Body = Some (JObject [(''scope'', JString ''GLOBAL'')]),
      Header = [(''User-Agent'', [''curl/7.54.0'']), (''Accept'', [''application/json'']),
                (''Content-Type'', [''application/json''])]\<rparr>"
    by (simp add: SetScope_request_def Header_Set_def)
  have mem: "''GLOBAL'' \<in> {''GLOBAL'', ''AUTHENTICATED'', ''PRIVATE''}" by simp
  show ?thesis
    using SetScope_valid_scope [OF mem, of sample_Client "''https://example.atlassian.net/''"
        "[(''User-Agent'', [''curl/7.54.0''])]" "\<lambda>request. Inr (200, ''{}'')"
        "\<lambda>body. Inr (JObject [])" 200 "''{}''"]
    unfolding sample_Client_def req
    by (cases "FilterShareService_SetScope
         (spec_Client ''https://example.atlassian.net/'' [(''User-Agent'', [''curl/7.54.0''])]
           (\<lambda>request. Inr (200, ''{}'')) (\<lambda>body. Inr (JObject [])))
         ''GLOBAL''") simp
qed

section \<open>Which methods check their identifier\<close>

lemma IssueMetadata_Get_empty:
  "IssueMetadataService_Get ParseBytes c [] s e =
     Inr (gjson_Result_zero, None, Some ErrNoIssueKeyOrIDError, [])"
  by (simp add: IssueMetadataService_Get_def)

lemma Version_empty:
  "ProjectVersionService_Gets c [] = (None, None, Some ErrNoProjectIDError, [])"
  "ProjectVersionService_Search c [] options startAt maxResults =
     (None, None, Some ErrNoProjectIDError, [])"
  "ProjectVersionService_Get c [] expand = (None, None, Some ErrNoVersionIDError, [])"
  "ProjectVersionService_Update marshalPayload c [] payload =
     (None, None, Some ErrNoVersionIDError, [])"
  "ProjectVersionService_Merge c [] versionMoveIssuesTo = (None, Some ErrNoVersionIDError, [])"
  "ProjectVersionService_Merge c versionID [] = (None, Some ErrNoVersionIDError, [])"
  "ProjectVersionService_RelatedIssueCounts c [] = (None, None, Some ErrNoVersionIDError, [])"
  "ProjectVersionService_UnresolvedIssueCount c [] = (None, None, Some ErrNoVersionIDError, [])"
  by (simp_all add: ProjectVersionService_Gets_def ProjectVersionService_Search_def
      ProjectVersionService_Get_def ProjectVersionService_Update_def ProjectVersionService_Merge_def
      ProjectVersionService_RelatedIssueCounts_def ProjectVersionService_UnresolvedIssueCount_def)

lemma Watcher_Get_built:
  "requests_built (run_trace (WatcherService_Get Unmarshal jc k)) =
     [(MethodGet, ''rest/api/3/issue/'' @ k @ ''/watchers'', None)]"
  by (simp add: WatcherService_Get_def run_trace_def Let_def
      split: sum.splits prod.splits option.splits)

lemma Watcher_Add_built:
  "requests_built (snd (snd (WatcherService_Add jc k))) =
     [(MethodPost, ''rest/api/3/issue/'' @ k @ ''/watchers'', None)]"
  by (simp add: WatcherService_Add_def Let_def split: sum.splits prod.splits)

lemma Watcher_Delete_built:
  "requests_built (snd (snd (WatcherService_Delete jc k))) =
     [(MethodDelete, ''rest/api/3/issue/'' @ k @ ''/watchers'', None)]"
  by (simp add: WatcherService_Delete_def Let_def split: sum.splits prod.splits)

text \<open>
  Claim C1, as stated, fails: \<^verbatim>\<open>WatcherService.Add\<close> with the empty issue key and
  \<^verbatim>\<open>FilterShareService.Gets\<close> with filter ID 0 return no error; each builds its
  request (at \<^verbatim>\<open>rest/api/3/issue//watchers\<close> and \<^verbatim>\<open>rest/api/2/filter/0/permission\<close>)
  and sends it.
\<close>

theorem required_identifier_counterexample:
  "WatcherService_Add sample_jira_Client [] =
     (Some \<lparr>StatusCode = 200,
            Endpoint = ''https://example.atlassian.net/rest/api/3/issue//watchers'',
            BodyAsBytes = ''{}''\<rparr>,
      None,
      [NewRequest MethodPost ''rest/api/3/issue//watchers'' None,
       Do \<lparr>Method = MethodPost, URL = ''https://example.atlassian.net/rest/api/3/issue//watchers'',
           Body = None, Header = [(''Content-Type'', [''application/json''])]\<rparr>])
   \<and> FilterShareService_Gets sample_Client 0 =
     (Some (JObject []),
      Some \<lparr>Code = 200,
            EndpointV2 = ''https://example.atlassian.net/rest/api/2/filter/0/permission'',
            Bytes = ''{}''\<rparr>,
      None,
      [NewRequest MethodGet ''rest/api/2/filter/0/permission'' None,
       Call \<lparr>Method = MethodGet,
             URL = ''https://example.atlassian.net/rest/api/2/filter/0/permission'',
             Body = None,
             Header = [(''User-Agent'', [''curl/7.54.0'']), (''Accept'', [''application/json''])]\<rparr>
         ResultTarget])"
  by (simp add: WatcherService_Add_def sample_jira_Client_def spec_newRequest_def Header_Set_def
      FilterShareService_Gets_def sample_Client_def spec_Client_def spec_call_def Let_def
      Itoa_def digits.simps digit_char_def)

text \<open>
  Claim C1, amended.  \<^verbatim>\<open>IssueMetadataService.Get\<close> with an empty issue key returns
  the no-issue-key error, and every \<^verbatim>\<open>ProjectVersionService\<close> method that takes a
  project key or a version ID (\<^verbatim>\<open>Gets\<close>, \<^verbatim>\<open>Search\<close>, \<^verbatim>\<open>Get\<close>, \<^verbatim>\<open>Update\<close>,
  \<^verbatim>\<open>Merge\<close>, \<^verbatim>\<open>RelatedIssueCounts\<close>, \<^verbatim>\<open>UnresolvedIssueCount\<close>) returns the
  no-project-ID or no-version-ID error for an empty identifier, before any request is
  built or sent.  \<^verbatim>\<open>WatcherService.Get/Add/Delete\<close> and the filter-permission methods
  \<^verbatim>\<open>Gets/Add/Get/Delete\<close> perform no such check: for every identifier, empty or zero
  included, they build the request with the identifier put into the path as given.
\<close>

theorem required_identifier_checks:
  "IssueMetadataService_Get ParseBytes c [] s e =
     Inr (gjson_Result_zero, None, Some ErrNoIssueKeyOrIDError, [])
   \<and> ProjectVersionService_Gets c [] = (None, None, Some ErrNoProjectIDError, [])
   \<and> ProjectVersionService_Search c [] options startAt maxResults =
       (None, None, Some ErrNoProjectIDError, [])
   \<and> ProjectVersionService_Get c [] expand = (None, None, Some ErrNoVersionIDError, [])
   \<and> ProjectVersionService_Update marshalPayload c [] versionPayload =
       (None, None, Some ErrNoVersionIDError, [])
   \<and> ProjectVersionService_Merge c [] versionMoveIssuesTo = (None, Some ErrNoVersionIDError, [])
   \<and> ProjectVersionService_Merge c versionID [] = (None, Some ErrNoVersionIDError, [])
   \<and> ProjectVersionService_RelatedIssueCounts c [] = (None, None, Some ErrNoVersionIDError, [])
   \<and> ProjectVersionService_UnresolvedIssueCount c [] = (None, None, Some ErrNoVersionIDError, [])
   \<and> requests_built (run_trace (WatcherService_Get Unmarshal jc k)) =
       [(MethodGet, ''rest/api/3/issue/'' @ k @ ''/watchers'', None)]
   \<and> requests_built (snd (snd (WatcherService_Add jc k))) =
       [(MethodPost, ''rest/api/3/issue/'' @ k @ ''/watchers'', None)]
   \<and> requests_built (snd (snd (WatcherService_Delete jc k))) =
       [(MethodDelete, ''rest/api/3/issue/'' @ k @ ''/watchers'', None)]
   \<and> requests_built (snd (snd (snd (FilterShareService_Gets c filterID)))) =
       [(MethodGet, ''rest/api/2/filter/'' @ Itoa filterID @ ''/permission'', None)]
   \<and> requests_built (snd (snd (snd (FilterShareService_Add c filterID (Some payload))))) =
       [(MethodPost, ''rest/api/2/filter/'' @ Itoa filterID @ ''/permission'',
         Some (Marshal_PermissionFilterPayloadScheme payload))]
   \<and> requests_built (snd (snd (snd (FilterShareService_Get c filterID permissionID)))) =
       [(MethodGet, ''rest/api/2/filter/'' @ Itoa filterID @ ''/permission/'' @ Itoa permissionID,
         None)]
   \<and> requests_built (snd (snd (FilterShareService_Delete c filterID permissionID))) =
       [(MethodDelete, ''rest/api/2/filter/'' @ Itoa filterID @ ''/permission/''
                        @ Itoa permissionID, None)]"
  by (simp add: IssueMetadata_Get_empty Version_empty Watcher_Get_built Watcher_Add_built
      Watcher_Delete_built Gets_built Add_built Get_built Delete_built)

theorem required_identifier_checks_witness:
  "ProjectVersionService_Gets sample_Client [] = (None, None, Some ErrNoProjectIDError, [])
   \<and> requests_built (snd (snd (WatcherService_Delete sample_jira_Client []))) =
       [(MethodDelete, ''rest/api/3/issue//watchers'', None)]
   \<and> requests_built (snd (snd (FilterShareService_Delete sample_Client 0 0))) =
       [(MethodDelete, ''rest/api/2/filter/0/permission/0'', None)]"
  using required_identifier_checks [where c = sample_Client and jc = sample_jira_Client
      and k = "[]" and filterID = 0 and permissionID = 0
      and ParseBytes = "\<lambda>bytes. gjson_Result_zero" and s = False and e = False
      and options = None and startAt = 0 and maxResults = 50 and expand = "[]"
      and marshalPayload = "\<lambda>p :: unit. JNull" and versionPayload = None
      and versionMoveIssuesTo = "[]" and versionID = "[]"
      and Unmarshal = "\<lambda>bytes result. (result, None)"
      and payload = "\<lparr>Type = ''group'', ProjectID = [], GroupName = ''eng'', ProjectRoleID = []\<rparr>"]
  by (simp add: Itoa_def digits.simps digit_char_def)

section \<open>What a failed validation returns\<close>

text \<open>
  Claim C10.  Whenever a method fails its pre-flight validation (\<^verbatim>\<open>SetScope\<close> with a
  scope outside the three values, \<^verbatim>\<open>Search\<close> and \<^verbatim>\<open>Gets\<close> with an empty project
  key, \<^verbatim>\<open>Merge\<close> with an empty version ID, \<^verbatim>\<open>IssueMetadataService.Get\<close> with an
  empty issue key; likewise \<^verbatim>\<open>Get\<close>, \<^verbatim>\<open>Update\<close>, \<^verbatim>\<open>RelatedIssueCounts\<close> and
  \<^verbatim>\<open>UnresolvedIssueCount\<close> with an empty version ID), every other return value is the
  zero value: the response envelope is nil and the typed result is nil, or the empty
  \<^verbatim>\<open>gjson.Result{}\<close>; the error is the only value set.
\<close>

theorem validation_failure_zero_values:
  "(scope \<notin> {''GLOBAL'', ''AUTHENTICATED'', ''PRIVATE''} \<longrightarrow>
      fst (FilterShareService_SetScope c scope) = None
      \<and> fst (snd (FilterShareService_SetScope c scope)) \<noteq> None
      \<and> snd (snd (FilterShareService_SetScope c scope)) = [])
   \<and> ProjectVersionService_Search c [] options startAt maxResults =
       (None, None, Some ErrNoProjectIDError, [])
   \<and> ProjectVersionService_Gets c [] = (None, None, Some ErrNoProjectIDError, [])
   \<and> (versionID = [] \<or> versionMoveIssuesTo = [] \<longrightarrow>
        ProjectVersionService_Merge c versionID versionMoveIssuesTo =
          (None, Some ErrNoVersionIDError, []))
   \<and> IssueMetadataService_Get ParseBytes c [] s e =
       Inr (\<lparr>gjson_Type = Null, Raw = [], Str = [], Num = 0, Index = 0\<rparr>, None,
            Some ErrNoIssueKeyOrIDError, [])
   \<and> ProjectVersionService_Get c [] expand = (None, None, Some ErrNoVersionIDError, [])
   \<and> ProjectVersionService_Update marshalPayload c [] versionPayload =
       (None, None, Some ErrNoVersionIDError, [])
   \<and> ProjectVersionService_RelatedIssueCounts c [] = (None, None, Some ErrNoVersionIDError, [])
   \<and> ProjectVersionService_UnresolvedIssueCount c [] = (None, None, Some ErrNoVersionIDError, [])"
proof -
  have scope: "scope \<notin> {''GLOBAL'', ''AUTHENTICATED'', ''PRIVATE''} \<Longrightarrow>
      FilterShareService_SetScope c scope =
        (None, Some (Errorf (''invalid scope, please provide one of the following: ''
                             @ Join validScopeValuesAsList '','')), [])"
    by (simp add: FilterShareService_SetScope_def isValidScope_iff validScopeValuesAsList_def)
  have merge: "versionID = [] \<or> versionMoveIssuesTo = [] \<Longrightarrow>
      ProjectVersionService_Merge c versionID versionMoveIssuesTo =
        (None, Some ErrNoVersionIDError, [])"
    by (auto simp add: ProjectVersionService_Merge_def)
  show ?thesis
    using scope merge
    by (simp add: IssueMetadata_Get_empty Version_empty gjson_Result_zero_def)
qed

theorem validation_failure_zero_values_witness:
  "''private'' \<notin> {''GLOBAL'', ''AUTHENTICATED'', ''PRIVATE''}
   \<and> fst (FilterShareService_SetScope sample_Client ''private'') = None
   \<and> snd (snd (FilterShareService_SetScope sample_Client ''private'')) = []
   \<and> (''10000'' = [] \<or> [] = ([] :: string))
   \<and> ProjectVersionService_Merge sample_Client ''10000'' [] = (None, Some ErrNoVersionIDError, [])"
  using validation_failure_zero_values [where c = sample_Client and scope = "''private''"
      and versionID = "''10000''" and versionMoveIssuesTo = "[]"
      and ParseBytes = "\<lambda>bytes. gjson_Result_zero" and s = False and e = False
      and options = None and startAt = 0 and maxResults = 50 and expand = "[]"
      and marshalPayload = "\<lambda>p :: unit. JNull" and versionPayload = None]
  by simp

end
